theory Spec2Isabelle
  imports Complex_Main
begin

section \<open>Python values\<close>

text \<open>
  The schema validators and the result constructors take arguments typed \<open>Any\<close>.
  A Python value is given by its class and its content: \<open>None\<close>, a bool, an int, a
  float, a str, a tuple, a list, a dict (the list of its items in insertion order), an
  exception object, or an object of another class.  \<open>PObject c n\<close> is the object number
  \<open>n\<close> of a class named \<open>c\<close> that inherits \<open>__eq__\<close>, \<open>__hash__\<close>, \<open>__str__\<close> and
  \<open>__repr__\<close> from \<open>object\<close>: two such objects are equal only when they are the same
  object.  \<open>PExc e\<close> is an exception object taken by its class and message; where the
  identity of an object matters, as for a dictionary key of a class that is not listed,
  the object is a \<open>PObject\<close>, and two keys of one dictionary are two objects.

  A finite float is given by the rational number it denotes, so that \<open>0.0\<close> and \<open>-0.0\<close>
  are one value, as they are for \<open>==\<close> and as dictionary keys.  The limits of the
  interpreter on memory and on the depth of recursion are not part of the model.
\<close>

datatype exn = TypeError string | Failure string | ValueError | OverflowError

datatype pyfloat = Finite rat | Infinite bool | NaN

datatype pyval =
    PNone
  | PBool bool
  | PInt int
  | PFloat pyfloat
  | PStr string
  | PTuple "pyval list"
  | PList "pyval list"
  | PDict "(pyval \<times> pyval) list"
  | PExc exn
  | PObject string nat

text \<open>\<open>hash(v)\<close>.  Lists and dictionaries cannot be hashed, and a tuple hashes its elements
  from left to right.  \<open>unhashable_types v\<close> lists the classes that refuse, in the order
  in which \<open>hash\<close> meets them; the first one is named in the \<open>TypeError\<close> raised.\<close>

fun unhashable_types :: "pyval \<Rightarrow> string list" where
  "unhashable_types (PList xs) = [''list'']"
| "unhashable_types (PDict kvs) = [''dict'']"
| "unhashable_types (PTuple xs) = concat (map unhashable_types xs)"
| "unhashable_types v = []"

definition hashable :: "pyval \<Rightarrow> bool" where
  "hashable v \<longleftrightarrow> unhashable_types v = []"

text \<open>Equality of dictionary keys is \<open>==\<close>.  A bool, an int and a float are equal when
  they denote the same number (\<open>True == 1 == 1.0\<close>), a comparison that is exact; tuples
  are equal element by element; a NaN is equal to no other object.  \<open>canon\<close> maps every
  number to the float that denotes it.\<close>

fun canon :: "pyval \<Rightarrow> pyval" where
  "canon (PBool b) = PFloat (Finite (if b then 1 else 0))"
| "canon (PInt i) = PFloat (Finite (of_int i))"
| "canon (PTuple xs) = PTuple (map canon xs)"
| "canon v = v"

fun has_nan :: "pyval \<Rightarrow> bool" where
  "has_nan (PFloat NaN) = True"
| "has_nan (PTuple xs) = (\<exists>x\<in>set xs. has_nan x)"
| "has_nan v = False"

definition key_eq :: "pyval \<Rightarrow> pyval \<Rightarrow> bool" where
  "key_eq a b \<longleftrightarrow> canon a = canon b \<and> \<not> has_nan a"

text \<open>\<open>d[k] = v\<close>.  The key is hashed first.  An entry with an equal key keeps its place
  and its key object and gets the new value; a new key goes to the end.\<close>

fun dict_store :: "(pyval \<times> pyval) list \<Rightarrow> pyval \<Rightarrow> pyval \<Rightarrow> (pyval \<times> pyval) list" where
  "dict_store [] k v = [(k, v)]"
| "dict_store ((k', v') # rest) k v =
     (if key_eq k' k then (k', v) # rest else (k', v') # dict_store rest k v)"

definition dict_set ::
  "(pyval \<times> pyval) list \<Rightarrow> pyval \<Rightarrow> pyval \<Rightarrow> exn + (pyval \<times> pyval) list"
where
  "dict_set d k v =
     (case unhashable_types k of
        [] \<Rightarrow> Inr (dict_store d k v)
      | t # ts \<Rightarrow> Inl (TypeError (''unhashable type: '' @ [CHR 0x27] @ t @ [CHR 0x27])))"

text \<open>A list of keys that are pairwise different as dictionary keys: the keys of a
  dictionary, in insertion order.\<close>

fun distinct_keys :: "pyval list \<Rightarrow> bool" where
  "distinct_keys [] = True"
| "distinct_keys (k # ks) = ((\<forall>k'\<in>set ks. \<not> key_eq k k') \<and> distinct_keys ks)"

text \<open>\<open>str(i)\<close> of an int.  The interpreter refuses to convert an int with more decimal
  digits than its limit \<open>sys.get_int_max_str_digits()\<close> and raises \<open>ValueError\<close>; the limit
  is 4300 unless the program changes it, and 0 means no limit.  \<open>maxd\<close> is that limit,
  \<open>ndigits n\<close> the number of decimal digits of \<open>n\<close>.  The text of the conversion is not
  modelled, only whether it raises.\<close>

fun ndigits :: "nat \<Rightarrow> nat" where
  "ndigits n = (if n < 10 then 1 else Suc (ndigits (n div 10)))"

definition str_int_raises :: "nat \<Rightarrow> int \<Rightarrow> bool" where
  "str_int_raises maxd i \<longleftrightarrow> 0 < maxd \<and> maxd < ndigits (nat \<bar>i\<bar>)"

text \<open>\<open>str(v)\<close> and \<open>format(v, '''')\<close> of any value, as an f-string computes them.  A
  container prints its elements, so it raises when one of them does; no other class of
  the model raises.\<close>

fun str_raises :: "nat \<Rightarrow> pyval \<Rightarrow> bool" where
  "str_raises maxd (PInt i) = str_int_raises maxd i"
| "str_raises maxd (PTuple xs) = (\<exists>x\<in>set xs. str_raises maxd x)"
| "str_raises maxd (PList xs) = (\<exists>x\<in>set xs. str_raises maxd x)"
| "str_raises maxd (PDict kvs) =
     (\<exists>kv\<in>set kvs. str_raises maxd (fst kv) \<or> str_raises maxd (snd kv))"
| "str_raises maxd v = False"

text \<open>\<open>float(i)\<close> of an int: the nearest double, ties to the even mantissa, and
  \<open>OverflowError\<close> when the result would reach \<open>2 ** 1024\<close>.  \<open>bitlen n\<close> is the number
  of bits of \<open>n\<close>, \<open>round_to_53 n\<close> is \<open>n\<close> rounded to 53 significant bits.\<close>

fun bitlen :: "nat \<Rightarrow> nat" where
  "bitlen n = (if n = 0 then 0 else Suc (bitlen (n div 2)))"

definition round_to_53 :: "nat \<Rightarrow> nat" where
  "round_to_53 n =
     (let e = bitlen n in
      if e \<le> 53 then n
      else (let s = e - 53; q = n div 2 ^ s; r = n mod 2 ^ s; h = 2 ^ (s - 1)
            in (if h < r \<or> (r = h \<and> odd q) then q + 1 else q) * 2 ^ s))"

definition float_of_int :: "int \<Rightarrow> exn + pyfloat" where
  "float_of_int i =
     (let m = round_to_53 (nat \<bar>i\<bar>) in
      if 2 ^ 1024 \<le> m then Inl OverflowError
      else Inr (Finite (of_int (sgn i * int m))))"


section \<open>Result constructors (core/schema/result.py)\<close>

text \<open>The property \<open>Failure.message\<close> is \<open>str(self)\<close>, the one argument the exception was
  built with.  The builtin exceptions have no such property.\<close>

fun message :: "exn \<Rightarrow> string option" where
  "message (Failure m) = Some m"
| "message e = None"

text \<open>A function that may raise returns \<open>Inl\<close> of the exception raised.  In both
  messages the formatted argument is \<open>None\<close>, the only value that reaches the
  \<open>raise\<close>.\<close>

definition ok :: "pyval \<Rightarrow> exn + pyval" where
  "ok value =
     (if value = PNone
      then Inl (TypeError ''ok(None) is not allowed, consider ok({}) instead'')
      else Inr (PDict [(PStr ''ok'', value)]))"

definition error :: "pyval \<Rightarrow> exn + pyval" where
  "error cause =
     (if cause = PNone
      then Inl (TypeError ''error(None) is not allowed, consider passing an error instead'')
      else Inr (PDict [(PStr ''error'', cause)]))"

definition panic :: "string \<Rightarrow> exn + unit" where
  "panic msg = Inl (Failure msg)"

definition fail :: "string \<Rightarrow> pyval" where
  "fail msg = PDict [(PStr ''error'', PExc (Failure msg))]"


section \<open>Schema validators (core/schema/schema.py)\<close>

text \<open>\<open>to_string\<close>.  Every branch returns a text; the only call that can raise is
  \<open>str(value)\<close> in the branch of the numbers, on an int that is not a bool (the bools
  are taken by the branch before) and is longer than the limit.\<close>

definition to_string_raises :: "nat \<Rightarrow> pyval \<Rightarrow> bool" where
  "to_string_raises maxd v = (case v of PInt i \<Rightarrow> str_int_raises maxd i | _ \<Rightarrow> False)"

text \<open>The error classes.  Each carries the fields its constructor stores.  A name cannot
  end in an underscore here, so the classes \<open>TypeError_\<close> and \<open>Optional_\<close> are written
  with a prime.\<close>

datatype schema_error =
    TypeError' string pyval
  | UnionError "schema_error list"
  | ElementError nat schema_error
  | FieldError pyval schema_error

text \<open>The constructors build the message at once, with an f-string: \<open>TypeError_\<close> calls
  \<open>to_string(actual)\<close>, \<open>ElementError\<close> formats the index, \<open>FieldError\<close> formats the key.
  When that raises, so does the constructor.  \<open>UnionError\<close> joins messages that exist
  already and does not raise.\<close>

definition new_TypeError :: "nat \<Rightarrow> string \<Rightarrow> pyval \<Rightarrow> exn + schema_error" where
  "new_TypeError maxd expect actual =
     (if to_string_raises maxd actual then Inl ValueError else Inr (TypeError' expect actual))"

definition new_ElementError :: "nat \<Rightarrow> nat \<Rightarrow> schema_error \<Rightarrow> exn + schema_error" where
  "new_ElementError maxd index cause =
     (if str_int_raises maxd (int index) then Inl ValueError
      else Inr (ElementError index cause))"

definition new_FieldError :: "nat \<Rightarrow> pyval \<Rightarrow> schema_error \<Rightarrow> exn + schema_error" where
  "new_FieldError maxd key cause =
     (if str_raises maxd key then Inl ValueError else Inr (FieldError key cause))"

text \<open>The dataclass \<open>Result\<close>: both fields default to \<open>None\<close>.  A test \<open>if result.error\<close>
  succeeds exactly when the field holds an error object.\<close>

record Result =
  result_ok :: pyval
  result_error :: "schema_error option"

abbreviation Result_ok :: "pyval \<Rightarrow> Result" where
  "Result_ok v \<equiv> \<lparr>result_ok = v, result_error = None\<rparr>"

abbreviation Result_error :: "schema_error \<Rightarrow> Result" where
  "Result_error e \<equiv> \<lparr>result_ok = PNone, result_error = Some e\<rparr>"

text \<open>\<open>Result(error=E(...))\<close>: the error is built first.\<close>

definition error_Result :: "exn + schema_error \<Rightarrow> exn + Result" where
  "error_Result built = (case built of Inl ex \<Rightarrow> Inl ex | Inr e \<Rightarrow> Inr (Result_error e))"

text \<open>The loop of \<open>ArrayOf.read_with\<close>.  The element schema enters as its \<open>read\<close> method,
  which returns a \<open>Result\<close> or raises, so that the loop is the same for every \<open>API\<close>
  object.  \<open>index\<close> is the counter of \<open>enumerate\<close>, \<open>results\<close> the list built by
  \<open>append\<close>.\<close>

fun ArrayOf_loop ::
  "nat \<Rightarrow> (pyval \<Rightarrow> exn + Result) \<Rightarrow> nat \<Rightarrow> pyval list \<Rightarrow> pyval list \<Rightarrow> exn + Result"
where
  "ArrayOf_loop maxd schema_read index [] results = Inr (Result_ok (PList results))"
| "ArrayOf_loop maxd schema_read index (value # rest) results =
     (case schema_read value of
        Inl ex \<Rightarrow> Inl ex
      | Inr result \<Rightarrow>
         (case result_error result of
            Some e \<Rightarrow> error_Result (new_ElementError maxd index e)
          | None \<Rightarrow>
              ArrayOf_loop maxd schema_read (Suc index) rest (results @ [result_ok result])))"

definition ArrayOf_read_with ::
  "nat \<Rightarrow> pyval \<Rightarrow> (pyval \<Rightarrow> exn + Result) \<Rightarrow> exn + Result"
where
  "ArrayOf_read_with maxd input_value schema_read =
     (case input_value of
        PList xs \<Rightarrow> ArrayOf_loop maxd schema_read 0 xs []
      | _ \<Rightarrow> error_Result (new_TypeError maxd ''array'' input_value))"

text \<open>The loop of \<open>Dictionary.read_with\<close> over \<open>input_value.items()\<close>; \<open>key_read\<close> and
  \<open>value_read\<close> are the \<open>read\<close> methods of \<open>settings["key"]\<close> and \<open>settings["value"]\<close>.\<close>

fun Dictionary_loop ::
  "nat \<Rightarrow> (pyval \<Rightarrow> exn + Result) \<Rightarrow> (pyval \<Rightarrow> exn + Result) \<Rightarrow>
   (pyval \<times> pyval) list \<Rightarrow> (pyval \<times> pyval) list \<Rightarrow> exn + Result"
where
  "Dictionary_loop maxd key_read value_read [] result = Inr (Result_ok (PDict result))"
| "Dictionary_loop maxd key_read value_read ((key, value) # rest) result =
     (case key_read key of
        Inl ex \<Rightarrow> Inl ex
      | Inr key_result \<Rightarrow>
         (case result_error key_result of
            Some e \<Rightarrow> error_Result (new_FieldError maxd key e)
          | None \<Rightarrow>
             (case value_read value of
                Inl ex \<Rightarrow> Inl ex
              | Inr value_result \<Rightarrow>
                 (case result_error value_result of
                    Some e \<Rightarrow> error_Result (new_FieldError maxd key e)
                  | None \<Rightarrow>
                     (if result_ok value_result \<noteq> PNone
                      then (case dict_set result (result_ok key_result)
                                   (result_ok value_result) of
                              Inl ex \<Rightarrow> Inl ex
                            | Inr result' \<Rightarrow>
                                Dictionary_loop maxd key_read value_read rest result')
                      else Dictionary_loop maxd key_read value_read rest result)))))"

definition Dictionary_read_with ::
  "nat \<Rightarrow> pyval \<Rightarrow> (pyval \<Rightarrow> exn + Result) \<Rightarrow> (pyval \<Rightarrow> exn + Result) \<Rightarrow> exn + Result"
where
  "Dictionary_read_with maxd input_value key_read value_read =
     (case input_value of
        PDict kvs \<Rightarrow> Dictionary_loop maxd key_read value_read kvs []
      | _ \<Rightarrow> error_Result (new_TypeError maxd ''dictionary'' input_value))"

text \<open>The schema classes of the module.  \<open>Dictionary value key\<close> is the object the factory
  \<open>dictionary(value_schema, key_schema)\<close> builds.  \<open>bool\<close> is a subclass of \<open>int\<close>, so
  \<open>Integer\<close> and \<open>Number\<close> accept both.  \<open>read maxd s\<close> is the method \<open>read\<close> of the
  schema \<open>s\<close> under the limit \<open>maxd\<close>.\<close>

datatype schema =
    Never
  | Unknown
  | Nullable schema
  | Optional' schema
  | ArrayOf schema
  | Dictionary schema schema
  | String
  | Number
  | Boolean
  | Integer

primrec read :: "nat \<Rightarrow> schema \<Rightarrow> pyval \<Rightarrow> exn + Result" where
  "read maxd Never = (\<lambda>input_value. error_Result (new_TypeError maxd ''never'' input_value))"
| "read maxd Unknown = (\<lambda>input_value. Inr (Result_ok input_value))"
| "read maxd (Nullable reader) = (\<lambda>input_value.
     if input_value = PNone then Inr (Result_ok PNone)
     else (case read maxd reader input_value of
             Inl ex \<Rightarrow> Inl ex
           | Inr result \<Rightarrow>
              (case result_error result of
                 Some e \<Rightarrow>
                  (case new_TypeError maxd ''null'' input_value of
                     Inl ex \<Rightarrow> Inl ex
                   | Inr null_error \<Rightarrow> Inr (Result_error (UnionError [e, null_error])))
               | None \<Rightarrow> Inr result)))"
| "read maxd (Optional' reader) = (\<lambda>input_value.
     if input_value = PNone then Inr (Result_ok PNone)
     else (case read maxd reader input_value of
             Inl ex \<Rightarrow> Inl ex
           | Inr result \<Rightarrow>
               if result_error result \<noteq> None \<and> input_value = PNone
               then Inr (Result_ok PNone) else Inr result))"
| "read maxd (ArrayOf element) = (\<lambda>input_value.
     ArrayOf_read_with maxd input_value (read maxd element))"
| "read maxd (Dictionary value key) = (\<lambda>input_value.
     Dictionary_read_with maxd input_value (read maxd key) (read maxd value))"
| "read maxd String = (\<lambda>input_value.
     case input_value of
       PStr s \<Rightarrow> Inr (Result_ok input_value)
     | _ \<Rightarrow> error_Result (new_TypeError maxd ''string'' input_value))"
| "read maxd Number = (\<lambda>input_value.
     case input_value of
       PInt i \<Rightarrow> (case float_of_int i of
                    Inl ex \<Rightarrow> Inl ex
                  | Inr f \<Rightarrow> Inr (Result_ok (PFloat f)))
     | PBool b \<Rightarrow> Inr (Result_ok (PFloat (Finite (if b then 1 else 0))))
     | PFloat f \<Rightarrow> Inr (Result_ok (PFloat f))
     | _ \<Rightarrow> error_Result (new_TypeError maxd ''number'' input_value))"
| "read maxd Boolean = (\<lambda>input_value.
     case input_value of
       PBool b \<Rightarrow> Inr (Result_ok input_value)
     | _ \<Rightarrow> error_Result (new_TypeError maxd ''boolean'' input_value))"
| "read maxd Integer = (\<lambda>input_value.
     case input_value of
       PInt i \<Rightarrow> Inr (Result_ok input_value)
     | PBool b \<Rightarrow> Inr (Result_ok input_value)
     | _ \<Rightarrow> error_Result (new_TypeError maxd ''integer'' input_value))"

text \<open>Whether a schema holds a \<open>Number\<close>, the one class whose result is not its input.\<close>

fun has_Number :: "schema \<Rightarrow> bool" where
  "has_Number Number = True"
| "has_Number (Nullable s) = has_Number s"
| "has_Number (Optional' s) = has_Number s"
| "has_Number (ArrayOf s) = has_Number s"
| "has_Number (Dictionary v k) = (has_Number v \<or> has_Number k)"
| "has_Number s = False"


section \<open>Capability interfaces (core/interfaces/capabilities.py, base.py)\<close>

type_synonym DID = string
type_synonym link = string
type_synonym caveats = "(string \<times> pyval) list"

text \<open>The dataclasses \<open>Capability\<close> and \<open>ParsedCapability\<close>.  The field \<open>with_\<close> is
  written \<open>with'\<close>.\<close>

datatype capability =
  Capability (can: string) (with': string) (nb: "caveats option")

datatype parsed_capability =
  ParsedCapability (parsed_can: string) (parsed_with: string) (parsed_nb: "caveats option")

text \<open>The protocol \<open>Delegation\<close> of base.py, with the fields the authorization walk
  reads.  A proof is a delegation carried inline or the link of one.\<close>

datatype delegation =
  Delegation (cid: link) (issuer: DID) (audience: DID) (capabilities: "capability list")
    (expiration: int) (not_before: "int option") (proofs: "Proof list")
and Proof = Inline delegation | Link link

datatype source =
  Source (source_capability: capability) (source_delegation: delegation)

datatype match =
  Match (match_source: "source list") (match_value: parsed_capability)
    (match_proofs: "delegation list")

text \<open>The failure dataclasses.  Every one has a \<open>message\<close> and a constant \<open>name\<close>; the
  name of an \<open>InvalidCapability\<close> is one of two literals.\<close>

datatype invalid_capability_name = UnknownCapability | MalformedCapability

datatype invalid_capability =
  InvalidCapability (invalid_name: invalid_capability_name) (invalid_capability: capability)

datatype delegation_error =
  DelegationError (causes: "delegation_cause list")
and delegation_cause =
    OfInvalidCapability invalid_capability
  | OfEscalatedDelegation parsed_capability delegation
  | OfDelegationError delegation_error

datatype select =
  Select (matches: "match list") (errors: "delegation_error list") (unknown: "capability list")

text \<open>\<open>Match.prune\<close>.  The method is concrete (it is not marked abstract) and its body is
  the docstring followed by the expression \<open>...\<close>, so a call evaluates the body and
  returns \<open>None\<close>.  \<open>config\<close> is the \<open>CanIssue\<close> object, given by its \<open>can_issue\<close>
  method.\<close>

definition prune :: "match \<Rightarrow> (parsed_capability \<Rightarrow> DID \<Rightarrow> bool) \<Rightarrow> match option" where
  "prune self config = None"




text \<open>Modelled from the spec: what the walk asks of the capability parser, whose methods
  are abstract in the repository: \<open>select\<close> over the sources of a delegation (section
  4.1), and the narrowing rule of section 4.2, \<open>covers granted claimed\<close>.\<close>

record capability_parser =
  select :: "source list \<Rightarrow> select"
  covers :: "parsed_capability \<Rightarrow> parsed_capability \<Rightarrow> bool"

text \<open>The dataclass \<open>ValidationOptions\<close>.  \<open>principal\<close> maps a DID to its normal form.
  \<open>can_issue\<close> and \<open>resolver\<close> are optional in the dataclass; the walk is modelled for
  options that give both, and \<open>resolver\<close> returns \<open>None\<close> for a link it cannot resolve.
  \<open>authority\<close> is used for signatures only and is left out.\<close>

record validation_options =
  capability :: capability_parser
  principal :: "DID \<Rightarrow> DID"
  can_issue :: "parsed_capability \<Rightarrow> DID \<Rightarrow> bool"
  resolver :: "link \<Rightarrow> delegation option"


section \<open>The authorization walk\<close>

text \<open>\<open>Validator.validate\<close> is an abstract method of a protocol: the repository has no
  implementation of it.  The definitions of this section are written from section 4.2 of
  the specification.\<close>





















section \<open>A small service\<close>

text \<open>One ability, \<open>store/add\<close>.  The parser matches every capability with that ability
  and reports the others as unknown; a granted capability covers a claim on the same
  resource; an issuer is self-authoritative over the resource that is its own DID; no
  link resolves.  The root delegation is issued by the space itself, the leaf by its
  audience.\<close>

definition store_parser :: capability_parser where
  "store_parser =
     \<lparr>select = (\<lambda>sources. Select
         (map (\<lambda>s. Match [s] (ParsedCapability (can (source_capability s))
                  (with' (source_capability s)) (nb (source_capability s))) [])
            (filter (\<lambda>s. can (source_capability s) = ''store/add'') sources))
         []
         (map source_capability
            (filter (\<lambda>s. can (source_capability s) \<noteq> ''store/add'') sources))),
      covers = (\<lambda>granted claimed. parsed_can granted = parsed_can claimed
                  \<and> parsed_with granted = parsed_with claimed)\<rparr>"

definition store_options :: validation_options where
  "store_options =
     \<lparr>capability = store_parser,
      principal = (\<lambda>did. did),
      can_issue = (\<lambda>c did. parsed_with c = did),
      resolver = (\<lambda>l. None)\<rparr>"

definition store_claim :: parsed_capability where
  "store_claim = ParsedCapability ''store/add'' ''did:key:space1'' None"

definition store_add :: capability where
  "store_add = Capability ''store/add'' ''did:key:space1'' None"

definition root_delegation :: delegation where
  "root_delegation =
     Delegation ''bafyroot'' ''did:key:space1'' ''did:key:B'' [store_add] 3600 None []"



section \<open>Properties of the result constructors\<close>

text \<open>
  C7.  A value other than \<open>None\<close> given to \<open>ok\<close> comes back as the one-entry dictionary
  \<open>{"ok": v}\<close>, a cause other than \<open>None\<close> given to \<open>error\<close> as \<open>{"error": c}\<close>, and
  \<open>fail(message)\<close> is \<open>{"error": f}\<close> with \<open>f\<close> a \<open>Failure\<close> whose message is the argument.
\<close>

theorem result_constructors_single_key:
  "(v \<noteq> PNone \<longrightarrow> ok v = Inr (PDict [(PStr ''ok'', v)]))
   \<and> (c \<noteq> PNone \<longrightarrow> error c = Inr (PDict [(PStr ''error'', c)]))
   \<and> fail msg = PDict [(PStr ''error'', PExc (Failure msg))]
   \<and> message (Failure msg) = Some msg"
  by (simp add: ok_def error_def fail_def)

theorem result_constructors_single_key_witness:
  "PInt 7 \<noteq> PNone \<and> ok (PInt 7) = Inr (PDict [(PStr ''ok'', PInt 7)])
   \<and> PStr ''boom'' \<noteq> PNone \<and> error (PStr ''boom'') = Inr (PDict [(PStr ''error'', PStr ''boom'')])
   \<and> fail ''bad'' = PDict [(PStr ''error'', PExc (Failure ''bad''))]"
  using result_constructors_single_key [of "PInt 7" "PStr ''boom''" "''bad''"]
  by simp

text \<open>
  C8.  \<open>ok\<close> raises \<open>TypeError\<close> exactly when its argument is \<open>None\<close>, and so does \<open>error\<close>;
  on every other argument both return normally.
\<close>

theorem result_constructors_reject_None:
  "((\<exists>m. ok v = Inl (TypeError m)) \<longleftrightarrow> v = PNone)
   \<and> ((\<exists>m. error c = Inl (TypeError m)) \<longleftrightarrow> c = PNone)
   \<and> (v \<noteq> PNone \<longrightarrow> (\<exists>d. ok v = Inr d))
   \<and> (c \<noteq> PNone \<longrightarrow> (\<exists>d. error c = Inr d))"
  by (simp add: ok_def error_def)

theorem result_constructors_reject_None_witness:
  "(\<exists>m. ok PNone = Inl (TypeError m)) \<and> (\<exists>m. error PNone = Inl (TypeError m))
   \<and> (\<exists>d. ok (PList []) = Inr d) \<and> (\<exists>d. error (PExc (Failure ''x'')) = Inr d)"
  using result_constructors_reject_None [of PNone PNone]
    result_constructors_reject_None [of "PList []" "PExc (Failure ''x'')"]
  by simp


section \<open>Properties of the schema validators\<close>







lemma hashable_simps [simp]:
  "hashable PNone" "hashable (PBool b)" "hashable (PInt i)" "hashable (PFloat f)"
  "hashable (PStr s)" "hashable (PExc ex)" "hashable (PObject c n)"
  "\<not> hashable (PList xs)" "\<not> hashable (PDict kvs)"
  by (simp_all add: hashable_def)




lemma dict_set_hashable: "hashable k \<Longrightarrow> dict_set d k v = Inr (dict_store d k v)"
  by (simp add: dict_set_def hashable_def)

lemma Dictionary_loop_all_valid:
  "list_all2 (\<lambda>(k, v) (k', v'). kr k = Inr (Result_ok k') \<and> vr v = Inr (Result_ok v')
                \<and> hashable k') items validated \<Longrightarrow>
   Dictionary_loop m kr vr items acc =
     Inr (Result_ok (PDict (foldl (\<lambda>d (k', v'). dict_store d k' v') acc
            (filter (\<lambda>(k', v'). v' \<noteq> PNone) validated))))"
proof (induction items validated arbitrary: acc rule: list_all2_induct)
  case Nil
  then show ?case by simp
next
  case (Cons kv items kv' validated)
  obtain k v where kv: "kv = (k, v)" by (cases kv)
  obtain k' v' where kv': "kv' = (k', v')" by (cases kv')
  from Cons.hyps(1) kv kv' have h: "kr k = Inr (Result_ok k')" "vr v = Inr (Result_ok v')"
    "hashable k'" by auto
  show ?case
    using Cons.IH h kv kv' by (simp add: dict_set_hashable)
qed

lemma dict_store_fresh:
  "\<forall>a\<in>set d. \<not> key_eq (fst a) k \<Longrightarrow> dict_store d k v = d @ [(k, v)]"
  by (induction d) auto

lemma foldl_dict_store_distinct:
  "distinct_keys (map fst kvs) \<Longrightarrow> \<forall>a\<in>set acc. \<forall>b\<in>set kvs. \<not> key_eq (fst a) (fst b) \<Longrightarrow>
   foldl (\<lambda>d (k', v'). dict_store d k' v') acc (filter P kvs) = acc @ filter P kvs"
proof (induction kvs arbitrary: acc)
  case Nil
  then show ?case by simp
next
  case (Cons kv kvs)
  obtain k v where kv: "kv = (k, v)" by (cases kv)
  from Cons.prems kv have d: "distinct_keys (map fst kvs)"
    and later: "\<forall>b\<in>set kvs. \<not> key_eq k (fst b)"
    and fresh: "\<forall>a\<in>set acc. \<not> key_eq (fst a) k"
    and rest: "\<forall>a\<in>set acc. \<forall>b\<in>set kvs. \<not> key_eq (fst a) (fst b)"
    by auto
  show ?case
  proof (cases "P kv")
    case False
    with Cons.IH [OF d rest] show ?thesis by simp
  next
    case True
    have "\<forall>a\<in>set (acc @ [(k, v)]). \<forall>b\<in>set kvs. \<not> key_eq (fst a) (fst b)"
      using rest later by auto
    from Cons.IH [OF d this] True kv fresh show ?thesis
      by (simp add: dict_store_fresh)
  qed
qed

lemma error_Result_no_ok:
  "error_Result built = Inr r \<Longrightarrow> result_error r \<noteq> None"
  by (auto simp: error_Result_def split: sum.splits)

lemma ArrayOf_read_with_not_list:
  "(\<forall>xs. v \<noteq> PList xs) \<Longrightarrow> ArrayOf_read_with m v rd = Inr r \<Longrightarrow> result_error r \<noteq> None"
  by (cases v) (auto simp: ArrayOf_read_with_def dest: error_Result_no_ok)

lemma Dictionary_read_with_not_dict:
  "(\<forall>kvs. v \<noteq> PDict kvs) \<Longrightarrow> Dictionary_read_with m v kr vr = Inr r \<Longrightarrow> result_error r \<noteq> None"
  by (cases v) (auto simp: Dictionary_read_with_def dest: error_Result_no_ok)

lemma read_hashable:
  "hashable v \<Longrightarrow> read m s v = Inr r \<Longrightarrow> result_error r = None \<Longrightarrow> hashable (result_ok r)"
proof (induction s arbitrary: r)
  case (ArrayOf s)
  from \<open>hashable v\<close> have "\<forall>xs. v \<noteq> PList xs" by auto
  from ArrayOf_read_with_not_list [OF this, of m "read m s" r] ArrayOf.prems
  show ?case by simp
next
  case (Dictionary s1 s2)
  from \<open>hashable v\<close> have "\<forall>kvs. v \<noteq> PDict kvs" by auto
  from Dictionary_read_with_not_dict [OF this, of m "read m s2" "read m s1" r] Dictionary.prems
  show ?case by simp
qed (auto split: if_splits sum.splits option.splits pyval.splits dest: error_Result_no_ok)

lemma read_unchanged:
  "\<not> has_Number s \<Longrightarrow> hashable v \<Longrightarrow> read m s v = Inr r \<Longrightarrow> result_error r = None \<Longrightarrow>
   result_ok r = v"
proof (induction s arbitrary: r)
  case (ArrayOf s)
  from \<open>hashable v\<close> have "\<forall>xs. v \<noteq> PList xs" by auto
  from ArrayOf_read_with_not_list [OF this, of m "read m s" r] ArrayOf.prems
  show ?case by simp
next
  case (Dictionary s1 s2)
  from \<open>hashable v\<close> have "\<forall>kvs. v \<noteq> PDict kvs" by auto
  from Dictionary_read_with_not_dict [OF this, of m "read m s2" "read m s1" r] Dictionary.prems
  show ?case by simp
qed (auto split: if_splits sum.splits option.splits pyval.splits dest: error_Result_no_ok)

lemma validated_keys_hashable:
  assumes "\<forall>kv\<in>set items. hashable (fst kv)"
    and "list_all2 (\<lambda>(k, v) (k', v'). read m key k = Inr (Result_ok k')
                \<and> read m value v = Inr (Result_ok v')) items validated"
  shows "list_all2 (\<lambda>(k, v) (k', v'). read m key k = Inr (Result_ok k')
                \<and> read m value v = Inr (Result_ok v') \<and> hashable k') items validated"
  using assms(2,1)
proof (induction items validated rule: list_all2_induct)
  case Nil
  then show ?case by simp
next
  case (Cons kv items kv' validated)
  obtain k v where kv: "kv = (k, v)" by (cases kv)
  obtain k' v' where kv': "kv' = (k', v')" by (cases kv')
  from Cons.hyps(1) kv kv' have r: "read m key k = Inr (Result_ok k')" by simp
  from Cons.prems kv have "hashable k" by simp
  from read_hashable [OF this r] have "hashable k'" by simp
  with Cons kv kv' show ?case by simp
qed

lemma validated_keys_unchanged:
  assumes "\<not> has_Number key" and "\<forall>kv\<in>set items. hashable (fst kv)"
    and "list_all2 (\<lambda>(k, v) (k', v'). read m key k = Inr (Result_ok k')
                \<and> read m value v = Inr (Result_ok v')) items validated"
  shows "map fst validated = map fst items"
  using assms(3,2)
proof (induction items validated rule: list_all2_induct)
  case Nil
  then show ?case by simp
next
  case (Cons kv items kv' validated)
  obtain k v where kv: "kv = (k, v)" by (cases kv)
  obtain k' v' where kv': "kv' = (k', v')" by (cases kv')
  from Cons.hyps(1) kv kv' have r: "read m key k = Inr (Result_ok k')" by simp
  from Cons.prems kv have "hashable k" by simp
  from read_unchanged [OF assms(1) this r] have "k' = k" by simp
  with Cons kv kv' show ?case by simp
qed

lemma float_of_int_example:
  "float_of_int 9007199254740992 = Inr (Finite 9007199254740992)"
  "float_of_int 9007199254740993 = Inr (Finite 9007199254740992)"
  by (simp_all add: float_of_int_def round_to_53_def Let_def)

text \<open>
  C10.  For a dictionary whose keys and values all validate, \<open>Dictionary.read\<close> succeeds
  with the dictionary built by storing, in the order of the input, every entry whose
  validated value is not \<open>None\<close> under its validated key: an entry whose value validates
  to \<open>None\<close>, as an optional field does, is left out.  When the key schema holds no
  \<open>Number\<close>, the validated keys are the keys of the input, and the result is the entries
  of the input whose validated value is not \<open>None\<close>, each under its key with the
  validated value.  The keys of a dictionary are hashable and pairwise different.
\<close>

theorem Dictionary_read_stores_validated:
  assumes keys: "\<forall>kv\<in>set items. hashable (fst kv)"
    and valid: "list_all2 (\<lambda>(k, v) (k', v'). read m key k = Inr (Result_ok k')
                  \<and> read m value v = Inr (Result_ok v')) items validated"
  shows "read m (Dictionary value key) (PDict items) =
           Inr (Result_ok (PDict (foldl (\<lambda>d (k', v'). dict_store d k' v') []
                  (filter (\<lambda>(k', v'). v' \<noteq> PNone) validated))))
       \<and> (\<not> has_Number key \<and> distinct_keys (map fst items) \<longrightarrow>
            map fst validated = map fst items
            \<and> read m (Dictionary value key) (PDict items) =
                Inr (Result_ok (PDict (filter (\<lambda>(k', v'). v' \<noteq> PNone) validated))))"
proof -
  have stored: "read m (Dictionary value key) (PDict items) =
           Inr (Result_ok (PDict (foldl (\<lambda>d (k', v'). dict_store d k' v') []
                  (filter (\<lambda>(k', v'). v' \<noteq> PNone) validated))))"
    using Dictionary_loop_all_valid [OF validated_keys_hashable [OF keys valid], of m "[]"]
    by (simp add: Dictionary_read_with_def)
  have "map fst validated = map fst items
        \<and> read m (Dictionary value key) (PDict items) =
            Inr (Result_ok (PDict (filter (\<lambda>(k', v'). v' \<noteq> PNone) validated)))"
    if h: "\<not> has_Number key \<and> distinct_keys (map fst items)"
  proof -
    from h have same: "map fst validated = map fst items"
      using validated_keys_unchanged [OF _ keys valid] by simp
    with h have "distinct_keys (map fst validated)" by simp
    from foldl_dict_store_distinct [OF this, of "[]" "\<lambda>(k', v'). v' \<noteq> PNone"]
    have "foldl (\<lambda>d (k', v'). dict_store d k' v') [] (filter (\<lambda>(k', v'). v' \<noteq> PNone) validated)
            = filter (\<lambda>(k', v'). v' \<noteq> PNone) validated"
      by simp
    with stored same show ?thesis by simp
  qed
  with stored show ?thesis by blast
qed

theorem Dictionary_read_stores_validated_witness:
  "read 4300 (Dictionary (Optional' Integer) String)
      (PDict [(PStr ''size'', PInt 5), (PStr ''note'', PNone), (PStr ''n'', PBool True)])
     = Inr (Result_ok (PDict [(PStr ''size'', PInt 5), (PStr ''n'', PBool True)]))
   \<and> read 4300 (Dictionary String Number)
      (PDict [(PInt (2 ^ 53), PStr ''a''), (PInt (2 ^ 53 + 1), PStr ''b'')])
     = Inr (Result_ok (PDict [(PFloat (Finite 9007199254740992), PStr ''b'')]))"
proof -
  let ?items = "[(PStr ''size'', PInt 5), (PStr ''note'', PNone), (PStr ''n'', PBool True)]"
  have k1: "\<forall>kv\<in>set ?items. hashable (fst kv)" by simp
  have v1: "list_all2 (\<lambda>(k, v) (k', v'). read 4300 String k = Inr (Result_ok k')
                  \<and> read 4300 (Optional' Integer) v = Inr (Result_ok v')) ?items ?items"
    by simp
  have d1: "\<not> has_Number String \<and> distinct_keys (map fst ?items)"
    by (simp add: key_eq_def)
  let ?nums = "[(PInt (2 ^ 53), PStr ''a''), (PInt (2 ^ 53 + 1), PStr ''b'')]"
  let ?f = "PFloat (Finite 9007199254740992)"
  have k2: "\<forall>kv\<in>set ?nums. hashable (fst kv)" by simp
  have v2: "list_all2 (\<lambda>(k, v) (k', v'). read 4300 Number k = Inr (Result_ok k')
                  \<and> read 4300 String v = Inr (Result_ok v')) ?nums
              [(?f, PStr ''a''), (?f, PStr ''b'')]"
    by (simp add: float_of_int_example)
  from Dictionary_read_stores_validated [OF k1 v1] d1
  have one: "read 4300 (Dictionary (Optional' Integer) String) (PDict ?items)
     = Inr (Result_ok (PDict [(PStr ''size'', PInt 5), (PStr ''n'', PBool True)]))"
    by simp
  from Dictionary_read_stores_validated [OF k2 v2]
  have two: "read 4300 (Dictionary String Number) (PDict ?nums)
     = Inr (Result_ok (PDict [(?f, PStr ''b'')]))"
    by (simp add: key_eq_def)
  from one two show ?thesis by simp
qed

text \<open>C10 as first stated fails for a key schema \<open>Number\<close>: the key \<open>2 ** 53 + 1\<close>
  validates to the float \<open>9007199254740992.0\<close>, the entry is stored under that float,
  and the result has no key equal to the key of the input.\<close>

theorem Dictionary_read_Number_key_counterexample:
  "read 4300 Number (PInt (2 ^ 53 + 1)) = Inr (Result_ok (PFloat (Finite 9007199254740992)))
   \<and> read 4300 String (PStr ''a'') = Inr (Result_ok (PStr ''a''))
   \<and> PStr ''a'' \<noteq> PNone
   \<and> read 4300 (Dictionary String Number) (PDict [(PInt (2 ^ 53 + 1), PStr ''a'')])
       = Inr (Result_ok (PDict [(PFloat (Finite 9007199254740992), PStr ''a'')]))
   \<and> \<not> key_eq (PFloat (Finite 9007199254740992)) (PInt (2 ^ 53 + 1))"
  by (simp add: float_of_int_example Dictionary_read_with_def dict_set_def key_eq_def)


section \<open>Pruning\<close>

text \<open>
  C5.  \<open>Match.prune\<close> prunes nothing: for every match and every \<open>CanIssue\<close> it returns
  \<open>None\<close>.
\<close>

theorem prune_always_None:
  "prune self config = None"
  by (simp add: prune_def)

text \<open>C5 as first stated fails: the match below has no proofs, and the \<open>CanIssue\<close> of the
  small service accepts its capability from the issuer of the delegation that carries
  it, so nothing is there to prune and the match survives; \<open>prune\<close> returns \<open>None\<close> all
  the same.\<close>

theorem prune_surviving_match_counterexample:
  "match_proofs (Match [Source store_add root_delegation] store_claim []) = []
   \<and> can_issue store_options
         (match_value (Match [Source store_add root_delegation] store_claim []))
         (issuer root_delegation)
   \<and> prune (Match [Source store_add root_delegation] store_claim []) (can_issue store_options)
       = None"
  by (simp add: prune_def store_options_def store_claim_def root_delegation_def)


section \<open>Properties of the authorization walk\<close>
















end
